theory Spec2Isabelle
  imports Complex_Main
begin

section \<open>Python numbers\<close>

text \<open>
  A Python float: not-a-number, the two infinities, or a finite value. Finite floats
  are modelled by the real numbers they denote (both zeros are \<open>Fin 0\<close>). Comparison,
  sign change and the conversion of an integer are modelled exactly; the rounding of a
  sum, product or quotient of two finite floats is not part of the model.
\<close>

datatype pyfloat = NaN | PosInf | NegInf | Fin real

text \<open>\<^verbatim>\<open>a < b\<close> on floats: every comparison with NaN is false.\<close>

fun flt :: "pyfloat \<Rightarrow> pyfloat \<Rightarrow> bool" where
  "flt NaN b = False"
| "flt a NaN = False"
| "flt NegInf NegInf = False"
| "flt NegInf b = True"
| "flt PosInf b = False"
| "flt (Fin x) NegInf = False"
| "flt (Fin x) PosInf = True"
| "flt (Fin x) (Fin y) = (x < y)"

text \<open>\<^verbatim>\<open>a > b\<close>.\<close>

definition fgt :: "pyfloat \<Rightarrow> pyfloat \<Rightarrow> bool" where
  "fgt a b = flt b a"

text \<open>\<^verbatim>\<open>-1.0 * a\<close> on a float: the sign changes, nothing is rounded.\<close>

fun fneg :: "pyfloat \<Rightarrow> pyfloat" where
  "fneg NaN = NaN"
| "fneg PosInf = NegInf"
| "fneg NegInf = PosInf"
| "fneg (Fin x) = Fin (- x)"

text \<open>\<^verbatim>\<open>a + b\<close> on floats.\<close>

fun fadd :: "pyfloat \<Rightarrow> pyfloat \<Rightarrow> pyfloat" where
  "fadd NaN b = NaN"
| "fadd a NaN = NaN"
| "fadd PosInf NegInf = NaN"
| "fadd NegInf PosInf = NaN"
| "fadd PosInf b = PosInf"
| "fadd NegInf b = NegInf"
| "fadd (Fin x) PosInf = PosInf"
| "fadd (Fin x) NegInf = NegInf"
| "fadd (Fin x) (Fin y) = Fin (x + y)"

text \<open>\<^verbatim>\<open>a * 180.0 / math.pi\<close> on a float: both constants are positive.\<close>

fun fdeg :: "pyfloat \<Rightarrow> pyfloat" where
  "fdeg NaN = NaN"
| "fdeg PosInf = PosInf"
| "fdeg NegInf = NegInf"
| "fdeg (Fin x) = Fin (x * 180 / pi)"

text \<open>\<^verbatim>\<open>n.bit_length()\<close> of a natural number.\<close>

function bit_length :: "nat \<Rightarrow> nat" where
  "bit_length n = (if n = 0 then 0 else Suc (bit_length (n div 2)))"
  by pat_completeness auto
termination
  by (relation "measure id") auto

section \<open>Data model of \<open>Data_Utils.py\<close>\<close>

text \<open>
  The exceptions the Python code can raise become values. \<open>Exception'\<close> carries the
  message of a bare \<^verbatim>\<open>raise Exception(msg)\<close>; \<open>Cv2Error\<close> is the error of an OpenCV
  call that rejects its arguments; \<open>RuntimeError\<close> is what a failing forward pass of the
  network raises.
\<close>

datatype error =
    AssertionError
  | Exception' string
  | AttributeError
  | IndexError
  | TypeError
  | NameError
  | OSError
  | OverflowError
  | Cv2Error
  | RuntimeError

text \<open>
  The float an integer converts to when it meets a float in arithmetic: exact below
  \<open>2 ^ 53\<close>, otherwise rounded to 53 significant bits, a tie going to the even
  neighbour; an integer that rounds to \<open>2 ^ 1024\<close> or more is too large for a float.
\<close>

definition float_of_int :: "int \<Rightarrow> error + pyfloat" where
  "float_of_int n =
     (let m = nat \<bar>n\<bar> in
      if m < 2 ^ 53 then Inr (Fin (of_int n))
      else
        let e = bit_length m - 53;
            q = m div 2 ^ e;
            r = m mod 2 ^ e;
            half = 2 ^ (e - 1);
            q' = (if half < r \<or> (r = half \<and> odd q) then q + 1 else q);
            v = q' * 2 ^ e
        in if 2 ^ 1024 \<le> v then Inl OverflowError
           else Inr (Fin (if n < 0 then - of_nat v else of_nat v)))"

text \<open>
  A scalar of a label row or of a JSON argument list: a string, an integer or a float.
\<close>

datatype cell = S string | I int | F pyfloat

text \<open>
  What the key \<^verbatim>\<open>"row"\<close> of the record holds: a label row (the pandas Series read from
  the index), or a bare scalar, which is what \<^verbatim>\<open>radOffset\<close> and \<^verbatim>\<open>rad2deg\<close> store there.
\<close>

datatype rowval = Row "cell list" | Scalar cell

text \<open>
  An image array: height x width x channel (\<open>Arr3\<close>, what \<^verbatim>\<open>cv2.imread\<close> decodes) or
  height x width (\<open>Arr2\<close>). The nested lists of an array are rectangular.
\<close>

datatype ndarray = Arr2 "nat list list" | Arr3 "nat list list list"

text \<open>
  The per-sample dictionary \<^verbatim>\<open>src_dict\<close>. Its keys are the fixed strings
  \<^verbatim>\<open>"img"\<close>, \<^verbatim>\<open>"row"\<close>, \<^verbatim>\<open>"flag"\<close> and \<^verbatim>\<open>"img_name"\<close>; \<open>None\<close> stands for what
  \<^verbatim>\<open>dict.get\<close> returns when the key is absent or holds Python's \<^verbatim>\<open>None\<close>
  (\<^verbatim>\<open>cv2.imread\<close> returns \<^verbatim>\<open>None\<close> for a file it cannot read).
\<close>

record pydict =
  img :: "ndarray option"
  row :: "rowval option"
  flag :: "bool option"
  img_name :: "string option"

text \<open>A JSON operation descriptor \<^verbatim>\<open>{"F": name, "args": [...]}\<close>, as the pair (F, args).\<close>

type_synonym json_func = "string \<times> cell list"

text \<open>The index table: its rows in order (the header is left out).\<close>

type_synonym dataframe = "cell list list"

section \<open>Python primitives used by the operations\<close>

text \<open>
  \<^verbatim>\<open>v[i]\<close> for a non-negative literal index \<open>i\<close>, on the value under \<^verbatim>\<open>"row"\<close>. A
  number is not subscriptable.
\<close>

fun subscript :: "rowval option \<Rightarrow> nat \<Rightarrow> error + cell" where
  "subscript None i = Inl TypeError"
| "subscript (Some (Row cs)) i = (if i < length cs then Inr (cs ! i) else Inl IndexError)"
| "subscript (Some (Scalar (S s))) i = (if i < length s then Inr (S [s ! i]) else Inl IndexError)"
| "subscript (Some (Scalar (I n))) i = Inl TypeError"
| "subscript (Some (Scalar (F a))) i = Inl TypeError"

text \<open>
  The float value a number takes in arithmetic with a float; a string has none.
\<close>

fun as_float :: "cell \<Rightarrow> error + pyfloat" where
  "as_float (S s) = Inl TypeError"
| "as_float (I n) = float_of_int n"
| "as_float (F a) = Inr a"

text \<open>
  \<^verbatim>\<open>a + b\<close>: integers add exactly, an integer meeting a float is converted first,
  strings concatenate, a string and a number raise.
\<close>

fun py_add :: "cell \<Rightarrow> cell \<Rightarrow> error + cell" where
  "py_add (S s) (S t) = Inr (S (s @ t))"
| "py_add (S s) b = Inl TypeError"
| "py_add a (S t) = Inl TypeError"
| "py_add (I m) (I n) = Inr (I (m + n))"
| "py_add a b =
     (case as_float a of
        Inl err \<Rightarrow> Inl err
      | Inr x \<Rightarrow> (case as_float b of Inl err \<Rightarrow> Inl err | Inr y \<Rightarrow> Inr (F (fadd x y))))"

text \<open>\<^verbatim>\<open>a * 180.0/math.pi\<close>: a string cannot be multiplied by a float.\<close>

definition py_deg :: "cell \<Rightarrow> error + pyfloat" where
  "py_deg a = (case as_float a of Inl err \<Rightarrow> Inl err | Inr x \<Rightarrow> Inr (fdeg x))"

text \<open>\<^verbatim>\<open>-1.0 * a\<close>: the result is a float, also for an integer.\<close>

definition py_neg_float :: "cell \<Rightarrow> error + pyfloat" where
  "py_neg_float a = (case as_float a of Inl err \<Rightarrow> Inl err | Inr x \<Rightarrow> Inr (fneg x))"

text \<open>\<^verbatim>\<open>a == 0.0\<close>: a string is never equal to a float, and neither is NaN.\<close>

fun py_eq_zero :: "cell \<Rightarrow> bool" where
  "py_eq_zero (S s) = False"
| "py_eq_zero (I n) = (n = 0)"
| "py_eq_zero (F a) = (a = Fin 0)"

text \<open>\<^verbatim>\<open>a < 0\<close> and \<^verbatim>\<open>a > 0\<close>: a string cannot be compared with a number.\<close>

fun py_lt_zero :: "cell \<Rightarrow> error + bool" where
  "py_lt_zero (S s) = Inl TypeError"
| "py_lt_zero (I n) = Inr (n < 0)"
| "py_lt_zero (F a) = Inr (flt a (Fin 0))"

fun py_gt_zero :: "cell \<Rightarrow> error + bool" where
  "py_gt_zero (S s) = Inl TypeError"
| "py_gt_zero (I n) = Inr (0 < n)"
| "py_gt_zero (F a) = Inr (fgt a (Fin 0))"

text \<open>A slice bound must be an integer: a string raises, and so does a float.\<close>

fun slice_index :: "cell \<Rightarrow> error + int" where
  "slice_index (I n) = Inr n"
| "slice_index (S s) = Inl TypeError"
| "slice_index (F a) = Inl TypeError"

text \<open>Python's clamping of a slice bound, negative bounds counting from the end.\<close>

definition slice_bound :: "nat \<Rightarrow> int \<Rightarrow> nat" where
  "slice_bound n i = (if i < 0 then nat (max 0 (int n + i)) else min n (nat i))"

definition py_slice :: "'a list \<Rightarrow> int \<Rightarrow> int option \<Rightarrow> 'a list" where
  "py_slice xs start stop =
     (let n = length xs;
          a = slice_bound n start;
          b = (case stop of None \<Rightarrow> n | Some e \<Rightarrow> slice_bound n e)
      in take (b - a) (drop a xs))"

text \<open>
  \<^verbatim>\<open>src_img[start:stop, :, :]\<close>: \<^verbatim>\<open>None\<close> is not subscriptable, a two-dimensional
  array has too few axes for three indices.
\<close>

fun crop_rows :: "ndarray option \<Rightarrow> int \<Rightarrow> int option \<Rightarrow> error + ndarray" where
  "crop_rows None start stop = Inl TypeError"
| "crop_rows (Some (Arr2 m)) start stop = Inl IndexError"
| "crop_rows (Some (Arr3 im)) start stop = Inr (Arr3 (py_slice im start stop))"

text \<open>
  \<^verbatim>\<open>cv2.flip(src, 1)\<close>, the horizontal mirror: each pixel row is reversed. For
  \<^verbatim>\<open>None\<close> and for an array without elements the call returns \<^verbatim>\<open>None\<close> and does not
  raise. A three-dimensional array is read as an image whose last axis holds the
  channels: with one channel the result comes back two-dimensional, and with more than
  512 channels OpenCV rejects the array.
\<close>

fun cv2_flip :: "ndarray option \<Rightarrow> error + ndarray option" where
  "cv2_flip None = Inr None"
| "cv2_flip (Some (Arr2 m)) =
     (if concat m = [] then Inr None else Inr (Some (Arr2 (map rev m))))"
| "cv2_flip (Some (Arr3 im)) =
     (if list_ex (\<lambda>p. 512 < length p) (concat im) then Inl Cv2Error
      else if concat (concat im) = [] then Inr None
      else if list_all (\<lambda>p. length p = 1) (concat im)
        then Inr (Some (Arr2 (map (map hd) (map rev im))))
      else Inr (Some (Arr3 (map rev im))))"

section \<open>The operations\<close>

definition cropVertical :: "cell list \<Rightarrow> pydict \<Rightarrow> error + pydict" where
  "cropVertical args src_dict =
     (if length args \<noteq> 2 then Inl AssertionError
      else let cropStart = args ! 0; cropEnd = args ! 1 in
        (case py_lt_zero cropEnd of
           Inl err \<Rightarrow> Inl err
         | Inr True \<Rightarrow>
            (case slice_index cropStart of
               Inl err \<Rightarrow> Inl err
             | Inr a \<Rightarrow>
                (case crop_rows (img src_dict) a None of
                   Inl err \<Rightarrow> Inl err
                 | Inr cropped \<Rightarrow> Inr (src_dict\<lparr>img := Some cropped\<rparr>)))
         | Inr False \<Rightarrow>
            (case py_gt_zero cropEnd of
               Inl err \<Rightarrow> Inl err
             | Inr True \<Rightarrow>
                (case slice_index cropStart of
                   Inl err \<Rightarrow> Inl err
                 | Inr a \<Rightarrow>
                    (case slice_index cropEnd of
                       Inl err \<Rightarrow> Inl err
                     | Inr b \<Rightarrow>
                        (case crop_rows (img src_dict) a (Some b) of
                           Inl err \<Rightarrow> Inl err
                         | Inr cropped \<Rightarrow> Inr (src_dict\<lparr>img := Some cropped\<rparr>))))
             | Inr False \<Rightarrow> Inl (Exception' ''bad args cropvertical''))))"

text \<open>
  \<^verbatim>\<open>rot90\<close>: the clockwise branch reads the name \<^verbatim>\<open>img\<close>, which is bound nowhere, so
  it raises; every other direction returns the record as it came.
\<close>

definition rot90 :: "cell list \<Rightarrow> pydict \<Rightarrow> error + pydict" where
  "rot90 args src_dict =
     (if length args \<noteq> 1 then Inl AssertionError
      else let direction = args ! 0 in
        if direction = S ''clockwise'' then Inl NameError
        else Inr src_dict)"

text \<open>
  \<^verbatim>\<open>dest_dict["row"] = src_row[1] + offset\<close>: the key \<^verbatim>\<open>"row"\<close> is rebound to the sum.
\<close>

definition radOffset :: "cell list \<Rightarrow> pydict \<Rightarrow> error + pydict" where
  "radOffset args src_dict =
     (if length args \<noteq> 1 then Inl AssertionError
      else let offset = args ! 0 in
        (case subscript (row src_dict) 1 of
           Inl err \<Rightarrow> Inl err
         | Inr a \<Rightarrow>
            (case py_add a offset of
               Inl err \<Rightarrow> Inl err
             | Inr v \<Rightarrow> Inr (src_dict\<lparr>row := Some (Scalar v)\<rparr>))))"

text \<open>\<^verbatim>\<open>dest_dict["row"] = src_row[1] * 180.0/math.pi\<close>.\<close>

definition rad2deg :: "cell list \<Rightarrow> pydict \<Rightarrow> error + pydict" where
  "rad2deg args src_dict =
     (if length args \<noteq> 0 then Inl AssertionError
      else
        (case subscript (row src_dict) 1 of
           Inl err \<Rightarrow> Inl err
         | Inr a \<Rightarrow>
            (case py_deg a of
               Inl err \<Rightarrow> Inl err
             | Inr v \<Rightarrow> Inr (src_dict\<lparr>row := Some (Scalar (F v))\<rparr>))))"

text \<open>
  \<^verbatim>\<open>dest_dict["row"][1] = v\<close>: item assignment into the value under \<^verbatim>\<open>"row"\<close>. It is
  reached only after \<^verbatim>\<open>src_row[1]\<close> was read from the same object.
\<close>

fun set_item1 :: "rowval option \<Rightarrow> cell \<Rightarrow> error + rowval" where
  "set_item1 (Some (Row cs)) v = (if 1 < length cs then Inr (Row (cs[1 := v])) else Inl IndexError)"
| "set_item1 _ v = Inl TypeError"

definition flipNonZero :: "cell list \<Rightarrow> pydict \<Rightarrow> error + pydict" where
  "flipNonZero args src_dict =
     (if length args \<noteq> 0 then Inl AssertionError
      else
        (case subscript (row src_dict) 1 of
           Inl err \<Rightarrow> Inl err
         | Inr a \<Rightarrow>
            if py_eq_zero a then Inr (src_dict\<lparr>flag := Some False\<rparr>)
            else
              (case cv2_flip (img src_dict) of
                 Inl err \<Rightarrow> Inl err
               | Inr flipped \<Rightarrow>
                  (case py_neg_float a of
                     Inl err \<Rightarrow> Inl err
                   | Inr v \<Rightarrow>
                      (case set_item1 (row src_dict) (F v) of
                         Inl err \<Rightarrow> Inl err
                       | Inr r \<Rightarrow>
                          Inr (src_dict\<lparr>flag := Some True, img := flipped, row := Some r\<rparr>))))))"

section \<open>The class \<open>Data_Utils\<close>\<close>

text \<open>
  The part of the file system the class touches: directory listings (\<open>None\<close> where there
  is no such directory), the index tables \<^verbatim>\<open>pd.read_csv\<close> can read, and the image files
  \<^verbatim>\<open>cv2.imread\<close> can decode.
\<close>

record filesystem =
  listdir :: "string \<Rightarrow> string list option"
  csv_files :: "string \<Rightarrow> dataframe option"
  image_files :: "string \<Rightarrow> ndarray option"

text \<open>\<^verbatim>\<open>os.path.join(a, b)\<close> on POSIX paths.\<close>

definition path_join :: "string \<Rightarrow> string \<Rightarrow> string" where
  "path_join a b =
     (if b \<noteq> [] \<and> hd b = CHR ''/'' then b
      else if a = [] \<or> last a = CHR ''/'' then a @ b
      else a @ ''/'' @ b)"

text \<open>\<^verbatim>\<open>str(n)\<close> for a natural number: its decimal digits.\<close>

function str_nat :: "nat \<Rightarrow> string" where
  "str_nat n =
     (if n < 10 then [''0123456789'' ! n]
      else str_nat (n div 10) @ [''0123456789'' ! (n mod 10)])"
  by pat_completeness auto
termination
  by (relation "measure id") auto

definition get_dest_datapath :: "filesystem \<Rightarrow> string \<Rightarrow> string \<Rightarrow> string \<Rightarrow> error + string" where
  "get_dest_datapath fs dest_datadir folder op =
     (if op = ''aug'' then Inr (path_join dest_datadir folder)
      else
        (case listdir fs dest_datadir of
           None \<Rightarrow> Inl OSError
         | Some entries \<Rightarrow>
            (let new_folder = folder @ str_nat (length entries)
             in Inr (path_join dest_datadir new_folder))))"

definition get_df :: "filesystem \<Rightarrow> string \<Rightarrow> error + dataframe" where
  "get_df fs datapath =
     (let csvpath = path_join datapath ''data.csv''
      in case csv_files fs csvpath of None \<Rightarrow> Inl OSError | Some df \<Rightarrow> Inr df)"

text \<open>
  \<^verbatim>\<open>df.iloc[idx]\<close> raises past the last row; \<^verbatim>\<open>row[0]\<close> must be a string for
  \<^verbatim>\<open>os.path.join\<close>; \<^verbatim>\<open>cv2.imread\<close> returns \<^verbatim>\<open>None\<close> for a file it cannot read.
\<close>

definition df_data_fromidx ::
  "filesystem \<Rightarrow> string \<Rightarrow> dataframe \<Rightarrow> nat \<Rightarrow> error + (ndarray option \<times> cell list)" where
  "df_data_fromidx fs datapath df idx =
     (if \<not> idx < length df then Inl IndexError
      else let r = df ! idx in
        (case subscript (Some (Row r)) 0 of
           Inl err \<Rightarrow> Inl err
         | Inr (I n) \<Rightarrow> Inl TypeError
         | Inr (F a) \<Rightarrow> Inl TypeError
         | Inr (S name) \<Rightarrow>
            (let img_path = path_join datapath name
             in Inr (image_files fs img_path, r))))"

text \<open>\<^verbatim>\<open>dest_df.append(src_df)\<close>: the rows of \<open>dest_df\<close>, then the rows of \<open>src_df\<close>.\<close>

definition get_finaldf :: "dataframe \<Rightarrow> dataframe \<Rightarrow> string \<Rightarrow> dataframe" where
  "get_finaldf src_df dest_df op = (if op = ''aug'' then dest_df @ src_df else dest_df)"

text \<open>
  \<^verbatim>\<open>partial(f, args)\<close> is the operation with its argument list fixed. The message of the
  exception is not an f-string, so the braces are literal.
\<close>

fun get_partial_func :: "json_func \<Rightarrow> error + (pydict \<Rightarrow> error + pydict)" where
  "get_partial_func (fname, args) =
     (if fname = ''cropVertical'' then Inr (cropVertical args)
      else if fname = ''rad2deg'' then Inr (rad2deg args)
      else if fname = ''radOffset'' then Inr (radOffset args)
      else if fname = ''rot90'' then Inr (rot90 args)
      else if fname = ''flipNonZero'' then Inr (flipNonZero args)
      else Inl (Exception' ''{fname} is not in the list of functions''))"

text \<open>
  \<^verbatim>\<open>apply_flist\<close>: the loop body only binds \<^verbatim>\<open>partial_func\<close>; the function has no
  \<^verbatim>\<open>return\<close>, so a call that does not raise yields Python's \<^verbatim>\<open>None\<close>, here \<open>Inr None\<close>.
\<close>

fun apply_flist :: "pydict \<Rightarrow> json_func list \<Rightarrow> error + pydict option" where
  "apply_flist src_dict [] = Inr None"
| "apply_flist src_dict (json_func # flist) =
     (case get_partial_func json_func of
        Inl err \<Rightarrow> Inl err
      | Inr partial_func \<Rightarrow> apply_flist src_dict flist)"

text \<open>\<^verbatim>\<open>range(max(len(src_df), maxlen))\<close>: the row numbers the loop of \<^verbatim>\<open>MOVE\<close> visits.\<close>

definition MOVE_range :: "dataframe \<Rightarrow> int \<Rightarrow> nat list" where
  "MOVE_range src_df maxlen = [0 ..< nat (max (int (length src_df)) maxlen)]"

text \<open>\<^verbatim>\<open>dest_dict.get("flag", True)\<close>.\<close>

definition get_flag :: "pydict \<Rightarrow> bool" where
  "get_flag dest_dict = (case flag dest_dict of None \<Rightarrow> True | Some b \<Rightarrow> b)"

text \<open>\<^verbatim>\<open>dest_df.append(dest_row)\<close>: only a row can be appended to the table.\<close>

fun df_append_row :: "dataframe \<Rightarrow> rowval option \<Rightarrow> error + dataframe" where
  "df_append_row df (Some (Row cs)) = Inr (df @ [cs])"
| "df_append_row df _ = Inl TypeError"

text \<open>
  \<^verbatim>\<open>cv2.imwrite(dest_img, path)\<close>: \<^verbatim>\<open>cv2.imwrite\<close> takes the file name first and the
  image second; called with the image (or \<^verbatim>\<open>None\<close>) as file name it raises.
\<close>

definition cv2_imwrite_swapped :: "ndarray option \<Rightarrow> string \<Rightarrow> error + unit" where
  "cv2_imwrite_swapped dest_img path = Inl Cv2Error"

text \<open>
  The loop of \<^verbatim>\<open>MOVE\<close> over the row numbers, threading \<open>dest_df\<close>. The result of
  \<^verbatim>\<open>apply_flist\<close> is used as a dictionary: \<^verbatim>\<open>None.get\<close> raises AttributeError.
\<close>

fun MOVE_loop ::
  "filesystem \<Rightarrow> string \<Rightarrow> string \<Rightarrow> dataframe \<Rightarrow> json_func list \<Rightarrow> nat list \<Rightarrow> dataframe
     \<Rightarrow> error + dataframe" where
  "MOVE_loop fs src_datapath dest_datapath src_df flist [] dest_df = Inr dest_df"
| "MOVE_loop fs src_datapath dest_datapath src_df flist (i # rest) dest_df =
     (case df_data_fromidx fs src_datapath src_df i of
        Inl err \<Rightarrow> Inl err
      | Inr (src_img, src_row) \<Rightarrow>
         (case apply_flist \<lparr>img = src_img, row = Some (Row src_row), flag = None, img_name = None\<rparr> flist of
            Inl err \<Rightarrow> Inl err
          | Inr None \<Rightarrow> Inl AttributeError
          | Inr (Some dest_dict) \<Rightarrow>
             if get_flag dest_dict then
               (case subscript (row dest_dict) 0 of
                  Inl err \<Rightarrow> Inl err
                | Inr name0 \<Rightarrow>
                   (let dest_img_name = (case img_name dest_dict of None \<Rightarrow> name0 | Some nm \<Rightarrow> S nm) in
                    case df_append_row dest_df (row dest_dict) of
                      Inl err \<Rightarrow> Inl err
                    | Inr dest_df' \<Rightarrow>
                       (case dest_img_name of
                          I n \<Rightarrow> Inl TypeError
                        | F a \<Rightarrow> Inl TypeError
                        | S nm \<Rightarrow>
                           (case cv2_imwrite_swapped (img dest_dict) (path_join dest_datapath nm) of
                              Inl err \<Rightarrow> Inl err
                            | Inr u \<Rightarrow>
                               MOVE_loop fs src_datapath dest_datapath src_df flist rest dest_df'))))
             else MOVE_loop fs src_datapath dest_datapath src_df flist rest dest_df))"

text \<open>
  \<^verbatim>\<open>MOVE\<close>. The result is the path and the rows of the index that \<^verbatim>\<open>to_csv\<close> writes
  last; \<^verbatim>\<open>to_csv\<close> needs the destination folder to exist.
\<close>

definition MOVE ::
  "filesystem \<Rightarrow> string \<Rightarrow> string \<Rightarrow> string \<Rightarrow> json_func list \<Rightarrow> int \<Rightarrow> string
     \<Rightarrow> error + (string \<times> dataframe)" where
  "MOVE fs src_datadir folder dest_datadir flist maxlen op =
     (if \<not> (op = ''aug'' \<and> src_datadir \<noteq> dest_datadir) then Inl AssertionError
      else
        let fs1 = (if listdir fs dest_datadir = None
                   then fs\<lparr>listdir := (listdir fs)(dest_datadir \<mapsto> [])\<rparr> else fs);
            src_datapath = path_join src_datadir folder
        in
        (case get_dest_datapath fs1 dest_datadir folder op of
           Inl err \<Rightarrow> Inl err
         | Inr dest_datapath \<Rightarrow>
            (case get_df fs1 src_datapath of
               Inl err \<Rightarrow> Inl err
             | Inr src_df \<Rightarrow>
                (case MOVE_loop fs1 src_datapath dest_datapath src_df flist
                        (MOVE_range src_df maxlen) [] of
                   Inl err \<Rightarrow> Inl err
                 | Inr dest_df \<Rightarrow>
                    (let final_df = get_finaldf src_df dest_df op
                     in if listdir fs1 dest_datapath = None then Inl OSError
                        else Inr (path_join dest_datapath ''data.csv'', final_df))))))"



section \<open>The trainer of \<open>NN/train.py\<close>\<close>

text \<open>
  What \<^verbatim>\<open>loss_pass\<close> changes outside itself: the global gradient mode of
  \<^verbatim>\<open>torch.set_grad_enabled\<close>, the calls made on the optimizer and on the loss tensor,
  and the batch numbers handed to \<^verbatim>\<open>visualize_batch\<close>.
\<close>

record torch_state =
  grad_enabled :: bool
  zero_grads :: nat
  backwards :: nat
  optim_steps :: nat
  visualized :: "nat list"

text \<open>
  The network and the loss function are external: a batch is what they give for it, the
  loss value \<^verbatim>\<open>ts_loss.item()\<close>, a Python float, or the exception they raise.
\<close>

type_synonym batch = "error + pyfloat"

text \<open>
  The loop of \<^verbatim>\<open>loss_pass\<close> over \<^verbatim>\<open>enumerate(loader)\<close>. An exception leaves the
  state as it is at that point.
\<close>

fun batch_loop ::
  "string \<Rightarrow> (nat \<times> batch) list \<Rightarrow> pyfloat \<Rightarrow> torch_state \<Rightarrow> torch_state \<times> (error + pyfloat)" where
  "batch_loop op [] total_epoch_loss s = (s, Inr total_epoch_loss)"
| "batch_loop op ((i, b) # rest) total_epoch_loss s =
     (let s1 = s\<lparr>zero_grads := Suc (zero_grads s)\<rparr> in
      case b of
        Inl err \<Rightarrow> (s1, Inl err)
      | Inr ts_loss \<Rightarrow>
         (let s2 = (if op = ''train''
                    then s1\<lparr>backwards := Suc (backwards s1), optim_steps := Suc (optim_steps s1)\<rparr>
                    else s1);
              s3 = (if i mod 20 = 0 then s2\<lparr>visualized := visualized s2 @ [i]\<rparr> else s2)
          in batch_loop op rest (fadd total_epoch_loss ts_loss) s3))"

definition loss_pass :: "torch_state \<Rightarrow> batch list \<Rightarrow> string \<Rightarrow> torch_state \<times> (error + pyfloat)" where
  "loss_pass s loader op =
     (let s0 = (if op = ''valid'' then s\<lparr>grad_enabled := False\<rparr> else s) in
      case batch_loop op (enumerate 0 loader) (Fin 0) s0 of
        (s', Inl err) \<Rightarrow> (s', Inl err)
      | (s', Inr total_epoch_loss) \<Rightarrow>
         ((if op = ''valid'' then s'\<lparr>grad_enabled := True\<rparr> else s'), Inr total_epoch_loss))"

text \<open>
  What \<^verbatim>\<open>TRAIN\<close> does to the outside, in order: \<open>Save name epoch\<close> is
  \<^verbatim>\<open>torch.save\<close> to the file \<open>name\<close> of the log directory during that epoch,
  \<open>AddScalar\<close> is \<^verbatim>\<open>writer.add_scalar\<close>, \<open>LogTraining\<close> is \<^verbatim>\<open>vis.log_training\<close>
  and \<open>Close\<close> is \<^verbatim>\<open>writer.close\<close>.
\<close>

datatype event =
    Save string nat
  | AddScalar string pyfloat nat
  | LogTraining pyfloat pyfloat
  | Close

record train_vars =
  best_train_loss :: pyfloat
  best_valid_loss :: pyfloat
  trace :: "event list"

text \<open>
  The body of the epoch loop after the two passes returned \<open>train_epoch_loss\<close> and
  \<open>valid_epoch_loss\<close>, two Python floats. The tests are
  \<^verbatim>\<open>best_train_loss > train_epoch_loss\<close> and \<^verbatim>\<open>best_valid_loss > valid_epoch_loss\<close>.
\<close>

fun epoch_step :: "train_vars \<Rightarrow> nat \<times> (pyfloat \<times> pyfloat) \<Rightarrow> train_vars" where
  "epoch_step v (epoch, (train_epoch_loss, valid_epoch_loss)) =
     (let v1 = (if fgt (best_train_loss v) train_epoch_loss
                then v\<lparr>best_train_loss := train_epoch_loss,
                       trace := trace v @ [Save ''best_train_model'' epoch]\<rparr>
                else v);
          v2 = (if fgt (best_valid_loss v1) valid_epoch_loss
                then v1\<lparr>best_valid_loss := valid_epoch_loss,
                        trace := trace v1 @ [Save ''best_valid_model'' epoch]\<rparr>
                else v1)
      in v2\<lparr>trace := trace v2 @ [AddScalar ''Train Loss'' train_epoch_loss epoch,
                                 AddScalar ''Valid Loss'' valid_epoch_loss epoch]\<rparr>)"

text \<open>
  \<^verbatim>\<open>TRAIN\<close> over the losses its two passes return in each epoch; \<open>num_epochs\<close> is the
  length of the list. Both best losses start at \<^verbatim>\<open>float('inf')\<close>.
\<close>

definition TRAIN_epochs :: "(pyfloat \<times> pyfloat) list \<Rightarrow> train_vars" where
  "TRAIN_epochs losses =
     foldl epoch_step \<lparr>best_train_loss = PosInf, best_valid_loss = PosInf, trace = []\<rparr>
       (enumerate 0 losses)"

definition TRAIN :: "(pyfloat \<times> pyfloat) list \<Rightarrow> train_vars" where
  "TRAIN losses =
     (let v = TRAIN_epochs losses
      in v\<lparr>trace := trace v @ [LogTraining (best_train_loss v) (best_valid_loss v), Close]\<rparr>)"

text \<open>The epochs at which the file \<open>name\<close> was saved, in the order of the trace.\<close>

fun saved_epochs :: "string \<Rightarrow> event list \<Rightarrow> nat list" where
  "saved_epochs name [] = []"
| "saved_epochs name (Save f epoch # evs) =
     (if f = name then epoch # saved_epochs name evs else saved_epochs name evs)"
| "saved_epochs name (_ # evs) = saved_epochs name evs"

section \<open>Concrete inputs\<close>

text \<open>
  A file system with an empty index at \<^verbatim>\<open>/data/run/data.csv\<close> and an existing
  destination folder \<^verbatim>\<open>/out/run\<close>.
\<close>

definition fs_empty_index :: filesystem where
  "fs_empty_index =
     \<lparr>listdir = (\<lambda>p. if p = ''/out'' \<or> p = ''/out/run'' then Some [] else None),
      csv_files = (\<lambda>p. if p = ''/data/run/data.csv'' then Some [] else None),
      image_files = (\<lambda>p. None)\<rparr>"

text \<open>A file system with a one-row index and its image.\<close>

definition fs_one_row :: filesystem where
  "fs_one_row =
     \<lparr>listdir = (\<lambda>p. if p = ''/out'' \<or> p = ''/out/run'' then Some [] else None),
      csv_files = (\<lambda>p. if p = ''/data/run/data.csv'' then Some [[S ''a.png'', F (Fin 2)]] else None),
      image_files = (\<lambda>p. if p = ''/data/run/a.png'' then Some (Arr3 [[[1, 2, 3], [4, 5, 6]]]) else None)\<rparr>"

text \<open>
  A record as \<^verbatim>\<open>MOVE\<close> builds it: a 1 x 2 image with three channels and the row
  \<^verbatim>\<open>a.png, 2.0\<close>.
\<close>

definition sample_dict :: pydict where
  "sample_dict =
     \<lparr>img = Some (Arr3 [[[1, 2, 3], [4, 5, 6]]]), row = Some (Row [S ''a.png'', F (Fin 2)]),
      flag = None, img_name = None\<rparr>"

definition torch0 :: torch_state where
  "torch0 = \<lparr>grad_enabled = True, zero_grads = 0, backwards = 0, optim_steps = 0, visualized = []\<rparr>"


text \<open>The same image with the integer angle \<open>2 ^ 53 + 1\<close>.\<close>

definition big_angle_dict :: pydict where
  "big_angle_dict =
     \<lparr>img = Some (Arr3 [[[1, 2, 3], [4, 5, 6]]]),
      row = Some (Row [S ''a.png'', I 9007199254740993]),
      flag = None, img_name = None\<rparr>"

text \<open>An image with no rows, and a 1 x 2 image with a single channel.\<close>

definition empty_image_dict :: pydict where
  "empty_image_dict =
     \<lparr>img = Some (Arr3 []), row = Some (Row [S ''a.png'', F (Fin 2)]),
      flag = None, img_name = None\<rparr>"

definition gray_image_dict :: pydict where
  "gray_image_dict =
     \<lparr>img = Some (Arr3 [[[1], [2]]]), row = Some (Row [S ''a.png'', F (Fin 2)]),
      flag = None, img_name = None\<rparr>"

section \<open>The transform executor\<close>

lemma apply_flist_no_record: "apply_flist src_dict flist \<noteq> Inr (Some dest_dict)"
  by (induction flist) (auto split: sum.splits)

text \<open>
  Claim C1 says that \<^verbatim>\<open>apply_flist\<close> returns the record produced by running the
  operations in list order. The code resolves each descriptor and drops the result: on
  the sample record with the one-operation list \<^verbatim>\<open>[flipNonZero]\<close>, and with the empty
  list, \<^verbatim>\<open>apply_flist\<close> returns \<^verbatim>\<open>None\<close> and no record, and \<^verbatim>\<open>MOVE\<close> over a
  one-row index then fails with AttributeError at \<^verbatim>\<open>dest_dict.get\<close>.
\<close>

theorem apply_flist_returns_None:
  "apply_flist sample_dict [(''flipNonZero'', [])] = Inr None
   \<and> apply_flist sample_dict [] = Inr None
   \<and> MOVE fs_one_row ''/data'' ''run'' ''/out'' [(''flipNonZero'', [])] (- 1) ''aug''
       = Inl AttributeError"
  by (simp add: MOVE_def fs_one_row_def get_dest_datapath_def
      path_join_def get_df_def MOVE_range_def df_data_fromidx_def)

section \<open>The entry check of \<open>MOVE\<close>\<close>

lemma MOVE_assert:
  "\<not> (op = ''aug'' \<and> src_datadir \<noteq> dest_datadir)
   \<Longrightarrow> MOVE fs src_datadir folder dest_datadir flist maxlen op = Inl AssertionError"
  by (simp add: MOVE_def)

text \<open>
  Claim C2 says that augment mode requires equal source and destination roots and that
  move mode has no path restriction. The assertion at the entry of \<^verbatim>\<open>MOVE\<close> holds
  only for \<^verbatim>\<open>op == 'aug'\<close> with different roots: a move-mode call with different roots
  and an augment-mode call with equal roots both raise AssertionError, on every file
  system, while an augment-mode call with different roots passes the check.
\<close>

theorem MOVE_entry_check_reversed:
  "MOVE fs ''/data'' ''run'' ''/out'' [] (- 1) ''mv'' = Inl AssertionError
   \<and> MOVE fs ''/data'' ''run'' ''/data'' [] (- 1) ''aug'' = Inl AssertionError
   \<and> MOVE fs_empty_index ''/data'' ''run'' ''/out'' [] (- 1) ''aug'' = Inr (''/out/run/data.csv'', [])"
  by (simp add: MOVE_def fs_empty_index_def get_dest_datapath_def
      path_join_def get_df_def MOVE_range_def get_finaldf_def)

section \<open>The rows the walk visits\<close>

lemma MOVE_range_default: "MOVE_range src_df (- 1) = [0 ..< length src_df]"
  by (simp add: MOVE_range_def)


text \<open>
  Claim C3 says that a supplied limit truncates the walk to rows 0..limit-1. The bound
  of the loop is the maximum of the row count and the limit: over a three-row index
  with limit 1 the loop visits rows 0, 1 and 2.
\<close>

theorem MOVE_range_ignores_smaller_limit:
  "MOVE_range [[S ''a.png'', F (Fin 0)], [S ''b.png'', F (Fin 1)], [S ''c.png'', F (Fin 2)]] 1 = [0, 1, 2]"
  by (simp add: MOVE_range_def upt_conv_Cons)

section \<open>The consolidated index\<close>

text \<open>
  Claim C4 as stated puts the source rows first. With the one-row source index
  \<^verbatim>\<open>a.png\<close> and the one accepted row \<^verbatim>\<open>b.png\<close>, the first row of the augmented index
  is not the source row.
\<close>

theorem get_finaldf_source_first_counterexample:
  "take 1 (get_finaldf [[S ''a.png'', F (Fin 0)]] [[S ''b.png'', F (Fin 1)]] ''aug'')
     \<noteq> [[S ''a.png'', F (Fin 0)]]"
  by (simp add: get_finaldf_def)

text \<open>
  Claim C4, amended: in augment mode the consolidated index of a source index with N
  rows and M accepted rows has exactly N + M rows; its first M rows are the accepted
  rows in acceptance order, followed by the N source rows in their original order.
\<close>

theorem get_finaldf_aug:
  "get_finaldf src_df dest_df ''aug'' = dest_df @ src_df
   \<and> length (get_finaldf src_df dest_df ''aug'') = length src_df + length dest_df
   \<and> take (length dest_df) (get_finaldf src_df dest_df ''aug'') = dest_df
   \<and> drop (length dest_df) (get_finaldf src_df dest_df ''aug'') = src_df"
  by (simp add: get_finaldf_def)

section \<open>The label operations\<close>

text \<open>
  Claim C5 says that \<^verbatim>\<open>radOffset\<close> and \<^verbatim>\<open>rad2deg\<close> update the angle field at index 1
  and keep the other fields of the label row. Both rebind the key \<^verbatim>\<open>"row"\<close> to the
  new angle alone: on the sample record with row \<^verbatim>\<open>a.png, 2.0\<close>, \<^verbatim>\<open>radOffset\<close> with
  offset 1.0 leaves the scalar 3.0 under \<^verbatim>\<open>"row"\<close> and \<^verbatim>\<open>rad2deg\<close> leaves the scalar
  2 * 180 / pi; the file name is gone.
\<close>

theorem radOffset_rad2deg_replace_row:
  "radOffset [F (Fin 1)] sample_dict
     = Inr \<lparr>img = Some (Arr3 [[[1, 2, 3], [4, 5, 6]]]), row = Some (Scalar (F (Fin 3))),
            flag = None, img_name = None\<rparr>
   \<and> rad2deg [] sample_dict
     = Inr \<lparr>img = Some (Arr3 [[[1, 2, 3], [4, 5, 6]]]), row = Some (Scalar (F (Fin (360 / pi)))),
            flag = None, img_name = None\<rparr>"
  by (simp add: sample_dict_def radOffset_def rad2deg_def py_deg_def)

lemma fneg_fneg: "fneg (fneg a) = a"
  by (cases a) simp_all

lemma fneg_eq_zero: "fneg a = Fin 0 \<longleftrightarrow> a = Fin 0"
  by (cases a) simp_all

lemma float_of_int_small: "\<bar>n\<bar> < 2 ^ 53 \<Longrightarrow> float_of_int n = Inr (Fin (of_int n))"
  by (simp add: float_of_int_def nat_less_iff)

lemma flipNonZero_nonzero:
  assumes "row d = Some (Row cs)" and "1 < length cs" and "\<not> py_eq_zero (cs ! 1)"
    and "as_float (cs ! 1) = Inr a" and "cv2_flip (img d) = Inr flipped"
  shows "flipNonZero [] d
           = Inr (d\<lparr>flag := Some True, img := flipped, row := Some (Row (cs[1 := F (fneg a)]))\<rparr>)"
  using assms by (simp add: flipNonZero_def py_neg_float_def)

lemma set_concat_map_rev: "set (concat (map rev im)) = set (concat im)"
  by (induction im) auto

lemma cv2_flip_image:
  assumes "concat im \<noteq> []" and "\<forall>p\<in>set (concat im). 2 \<le> length p \<and> length p \<le> 512"
  shows "cv2_flip (Some (Arr3 im)) = Inr (Some (Arr3 (map rev im)))"
proof -
  from assms(1) obtain p where p: "p \<in> set (concat im)"
    by (cases "concat im") auto
  with assms(2) have "2 \<le> length p" by blast
  then have "p \<noteq> []" by auto
  with p have nonempty: "concat (concat im) \<noteq> []" by auto
  have few: "\<not> list_ex (\<lambda>p. 512 < length p) (concat im)"
    using assms(2) unfolding list_ex_iff by (meson not_less)
  have "length p \<noteq> 1"
    using \<open>2 \<le> length p\<close> by simp
  with p have multi: "\<not> list_all (\<lambda>p. length p = 1) (concat im)"
    unfolding list_all_iff by blast
  show ?thesis using nonempty few multi by (simp only: cv2_flip.simps if_False)
qed

lemma map_rev_rev: "map rev (map rev im) = im"
  by (induction im) simp_all

text \<open>
  Claim C9 as stated covers every record with a nonzero angle. With the integer angle
  \<open>2 ^ 53 + 1\<close> the two sign changes go through a float and give back \<open>2 ^ 53\<close>; with
  an image that has no rows the first call leaves \<^verbatim>\<open>None\<close> under \<^verbatim>\<open>"img"\<close> and the
  second keeps it; with a one-channel image the two calls give back a two-dimensional
  array.
\<close>

theorem flipNonZero_twice_counterexample:
  "flipNonZero [] big_angle_dict
     = Inr \<lparr>img = Some (Arr3 [[[4, 5, 6], [1, 2, 3]]]),
            row = Some (Row [S ''a.png'', F (Fin (- 9007199254740992))]),
            flag = Some True, img_name = None\<rparr>
   \<and> flipNonZero []
        \<lparr>img = Some (Arr3 [[[4, 5, 6], [1, 2, 3]]]),
         row = Some (Row [S ''a.png'', F (Fin (- 9007199254740992))]),
         flag = Some True, img_name = None\<rparr>
     = Inr \<lparr>img = Some (Arr3 [[[1, 2, 3], [4, 5, 6]]]),
            row = Some (Row [S ''a.png'', F (Fin 9007199254740992)]),
            flag = Some True, img_name = None\<rparr>
   \<and> flipNonZero [] empty_image_dict
     = Inr \<lparr>img = None, row = Some (Row [S ''a.png'', F (Fin (- 2))]),
            flag = Some True, img_name = None\<rparr>
   \<and> flipNonZero []
        \<lparr>img = None, row = Some (Row [S ''a.png'', F (Fin (- 2))]),
         flag = Some True, img_name = None\<rparr>
     = Inr \<lparr>img = None, row = Some (Row [S ''a.png'', F (Fin 2)]),
            flag = Some True, img_name = None\<rparr>
   \<and> flipNonZero [] gray_image_dict
     = Inr \<lparr>img = Some (Arr2 [[2, 1]]), row = Some (Row [S ''a.png'', F (Fin (- 2))]),
            flag = Some True, img_name = None\<rparr>
   \<and> flipNonZero []
        \<lparr>img = Some (Arr2 [[2, 1]]), row = Some (Row [S ''a.png'', F (Fin (- 2))]),
         flag = Some True, img_name = None\<rparr>
     = Inr \<lparr>img = Some (Arr2 [[1, 2]]), row = Some (Row [S ''a.png'', F (Fin 2)]),
            flag = Some True, img_name = None\<rparr>"
  by (simp add: flipNonZero_def py_neg_float_def big_angle_dict_def empty_image_dict_def
      gray_image_dict_def float_of_int_def)

text \<open>
  Claim C9, amended: on a record whose image is a non-empty height x width x channel
  array with 2 to 512 channels and whose angle field is a float other than zero, or an
  integer other than zero of magnitude below \<open>2 ^ 53\<close>, \<^verbatim>\<open>flipNonZero\<close> succeeds
  with \<open>flag\<close> true, the image mirrored and the angle negated, and a second application
  succeeds with \<open>flag\<close> true again and gives back the original image and the original
  angle value, as a float: for a float angle the result is the original record with
  \<open>flag\<close> set to true.
\<close>

theorem flipNonZero_twice:
  assumes "img d = Some (Arr3 im)" and "concat im \<noteq> []"
    and "\<forall>p\<in>set (concat im). 2 \<le> length p \<and> length p \<le> 512"
    and "row d = Some (Row cs)" and "1 < length cs"
    and "cs ! 1 = F a \<or> (cs ! 1 = I n \<and> \<bar>n\<bar> < 2 ^ 53 \<and> a = Fin (of_int n))"
    and "a \<noteq> Fin 0"
  shows "\<exists>d1. flipNonZero [] d = Inr d1
            \<and> flag d1 = Some True
            \<and> img d1 = Some (Arr3 (map rev im))
            \<and> row d1 = Some (Row (cs[1 := F (fneg a)]))
            \<and> flipNonZero [] d1 = Inr (d\<lparr>flag := Some True, row := Some (Row (cs[1 := F a]))\<rparr>)"
proof -
  let ?d1 = "d\<lparr>flag := Some True, img := Some (Arr3 (map rev im)),
               row := Some (Row (cs[1 := F (fneg a)]))\<rparr>"
  have num: "as_float (cs ! 1) = Inr a"
    using assms(6) by (auto simp: float_of_int_small)
  have nz: "\<not> py_eq_zero (cs ! 1)"
    using assms(6,7) by auto
  have fl: "cv2_flip (img d) = Inr (Some (Arr3 (map rev im)))"
    using assms(1) cv2_flip_image [OF assms(2,3)] by simp
  have first: "flipNonZero [] d = Inr ?d1"
    using assms(4,5) nz num fl by (rule flipNonZero_nonzero)
  have "set (concat (map rev im)) \<noteq> {}"
    using assms(2) unfolding set_concat_map_rev by simp
  then have c': "concat (map rev im) \<noteq> []"
    by (simp only: set_empty not_False_eq_True)
  have a': "\<forall>p\<in>set (concat (map rev im)). 2 \<le> length p \<and> length p \<le> 512"
    using assms(3) unfolding set_concat_map_rev .
  have again: "cv2_flip (img ?d1) = Inr (Some (Arr3 (map rev (map rev im))))"
    using cv2_flip_image [OF c' a'] by simp
  have "flipNonZero [] ?d1
          = Inr (?d1\<lparr>flag := Some True, img := Some (Arr3 (map rev (map rev im))),
                     row := Some (Row (cs[1 := F (fneg a), 1 := F (fneg (fneg a))]))\<rparr>)"
    using assms(5,7) again by (intro flipNonZero_nonzero) (simp_all add: fneg_eq_zero)
  then have second: "flipNonZero [] ?d1 = Inr (d\<lparr>flag := Some True, row := Some (Row (cs[1 := F a]))\<rparr>)"
    using assms(1) by (simp add: fneg_fneg map_rev_rev)
  from first second show ?thesis by simp
qed

theorem flipNonZero_twice_witness:
  "(\<exists>d1. flipNonZero [] sample_dict = Inr d1
         \<and> flag d1 = Some True
         \<and> img d1 = Some (Arr3 [[[4, 5, 6], [1, 2, 3]]])
         \<and> row d1 = Some (Row [S ''a.png'', F (Fin (- 2))])
         \<and> flipNonZero [] d1 = Inr (sample_dict\<lparr>flag := Some True\<rparr>))
   \<and> (\<exists>d1. flipNonZero [] (sample_dict\<lparr>row := Some (Row [S ''a.png'', I 2])\<rparr>) = Inr d1
         \<and> flag d1 = Some True
         \<and> img d1 = Some (Arr3 [[[4, 5, 6], [1, 2, 3]]])
         \<and> row d1 = Some (Row [S ''a.png'', F (Fin (- 2))])
         \<and> flipNonZero [] d1 = Inr (sample_dict\<lparr>flag := Some True\<rparr>))"
  using flipNonZero_twice [of sample_dict "[[[1, 2, 3], [4, 5, 6]]]" "[S ''a.png'', F (Fin 2)]" "Fin 2" 0]
    flipNonZero_twice [of "sample_dict\<lparr>row := Some (Row [S ''a.png'', I 2])\<rparr>"
      "[[[1, 2, 3], [4, 5, 6]]]" "[S ''a.png'', I 2]" "Fin 2" 2]
  by (simp add: sample_dict_def)

section \<open>The flag along a chain\<close>












section \<open>Unknown operation names\<close>







section \<open>The epoch loop\<close>

lemma saved_epochs_append:
  "saved_epochs name (evs @ evs') = saved_epochs name evs @ saved_epochs name evs'"
  by (induction name evs rule: saved_epochs.induct) simp_all

lemma TRAIN_epochs_snoc:
  "TRAIN_epochs (losses @ [l]) = epoch_step (TRAIN_epochs losses) (length losses, l)"
  by (simp add: TRAIN_epochs_def enumerate_append_eq)

lemma flt_trans: "flt a b \<Longrightarrow> flt b c \<Longrightarrow> flt a c"
  by (cases a; cases b; cases c) simp_all

lemma flt_not_flt: "flt x l \<Longrightarrow> \<not> flt t l \<Longrightarrow> t \<noteq> NaN \<Longrightarrow> flt x t"
  by (cases x; cases l; cases t) simp_all

lemma not_flt_PosInf: "\<not> flt t PosInf \<Longrightarrow> t \<noteq> NaN \<Longrightarrow> t = PosInf"
  by (cases t) simp_all

lemma flt_not_NaN: "flt a b \<Longrightarrow> a \<noteq> NaN \<and> b \<noteq> NaN"
  by (cases a; cases b) simp_all

lemma flt_PosInf_iff: "flt a PosInf \<longleftrightarrow> a \<noteq> NaN \<and> a \<noteq> PosInf"
  by (cases a) simp_all

lemma fgt_step:
  assumes bx: "fgt b x \<longleftrightarrow> flt x PosInf \<and> (\<forall>j<n. g j \<noteq> NaN \<longrightarrow> flt x (g j))"
    and bt: "fgt b t \<longleftrightarrow> flt t PosInf \<and> (\<forall>j<n. g j \<noteq> NaN \<longrightarrow> flt t (g j))"
  shows "fgt (if fgt b t then t else b) x
           \<longleftrightarrow> (flt x PosInf \<and> (\<forall>j<n. g j \<noteq> NaN \<longrightarrow> flt x (g j))) \<and> (t \<noteq> NaN \<longrightarrow> flt x t)"
proof (cases "fgt b t")
  case True
  with bt have t: "flt t PosInf" "\<forall>j<n. g j \<noteq> NaN \<longrightarrow> flt t (g j)" by simp_all
  have "flt x t \<Longrightarrow> flt x PosInf \<and> (\<forall>j<n. g j \<noteq> NaN \<longrightarrow> flt x (g j))"
    using t by (meson flt_trans)
  moreover have "t \<noteq> NaN" using t(1) by (simp add: flt_PosInf_iff)
  ultimately show ?thesis using True by (auto simp: fgt_def)
next
  case False
  have "flt x t" if a: "flt x PosInf" "\<forall>j<n. g j \<noteq> NaN \<longrightarrow> flt x (g j)" and t: "t \<noteq> NaN"
  proof (cases "flt t PosInf")
    case True
    with False bt obtain j where j: "j < n" "g j \<noteq> NaN" "\<not> flt t (g j)" by auto
    from a(2) j have "flt x (g j)" by simp
    then show ?thesis using j(3) t by (rule flt_not_flt)
  next
    case False
    then have "t = PosInf" using t by (rule not_flt_PosInf)
    with a(1) show ?thesis by simp
  qed
  with False bx show ?thesis by auto
qed

lemma below_snoc:
  "(flt x PosInf \<and> (\<forall>j<length (xs @ [l]). f ((xs @ [l]) ! j) \<noteq> NaN \<longrightarrow> flt x (f ((xs @ [l]) ! j))))
     \<longleftrightarrow> (flt x PosInf \<and> (\<forall>j<length xs. f (xs ! j) \<noteq> NaN \<longrightarrow> flt x (f (xs ! j))))
          \<and> (f l \<noteq> NaN \<longrightarrow> flt x (f l))"
  by (auto simp: nth_append less_Suc_eq)

lemma TRAIN_epochs_best_train:
  "fgt (best_train_loss (TRAIN_epochs losses)) x
     \<longleftrightarrow> flt x PosInf \<and> (\<forall>j<length losses. fst (losses ! j) \<noteq> NaN \<longrightarrow> flt x (fst (losses ! j)))"
proof (induction losses arbitrary: x rule: rev_induct)
  case Nil
  show ?case by (simp add: TRAIN_epochs_def fgt_def)
next
  case (snoc l losses)
  obtain t v where l: "l = (t, v)" by (cases l)
  have "best_train_loss (TRAIN_epochs (losses @ [l]))
          = (if fgt (best_train_loss (TRAIN_epochs losses)) t then t
             else best_train_loss (TRAIN_epochs losses))"
    by (simp add: TRAIN_epochs_snoc l Let_def)
  then show ?case
    using fgt_step [OF snoc.IH [of x] snoc.IH [of t]]
    by (simp only: below_snoc l fst_conv)
qed

lemma TRAIN_epochs_best_valid:
  "fgt (best_valid_loss (TRAIN_epochs losses)) x
     \<longleftrightarrow> flt x PosInf \<and> (\<forall>j<length losses. snd (losses ! j) \<noteq> NaN \<longrightarrow> flt x (snd (losses ! j)))"
proof (induction losses arbitrary: x rule: rev_induct)
  case Nil
  show ?case by (simp add: TRAIN_epochs_def fgt_def)
next
  case (snoc l losses)
  obtain t v where l: "l = (t, v)" by (cases l)
  have "best_valid_loss (TRAIN_epochs (losses @ [l]))
          = (if fgt (best_valid_loss (TRAIN_epochs losses)) v then v
             else best_valid_loss (TRAIN_epochs losses))"
    by (simp add: TRAIN_epochs_snoc l Let_def)
  then show ?case
    using fgt_step [OF snoc.IH [of x] snoc.IH [of v]]
    by (simp only: below_snoc l snd_conv)
qed

lemma filter_upt_snoc_cong:
  "filter (\<lambda>i. flt (f ((xs @ [x]) ! i)) PosInf
                \<and> (\<forall>j<i. f ((xs @ [x]) ! j) \<noteq> NaN \<longrightarrow> flt (f ((xs @ [x]) ! i)) (f ((xs @ [x]) ! j))))
      [0 ..< length xs]
     = filter (\<lambda>i. flt (f (xs ! i)) PosInf \<and> (\<forall>j<i. f (xs ! j) \<noteq> NaN \<longrightarrow> flt (f (xs ! i)) (f (xs ! j))))
      [0 ..< length xs]"
  by (rule filter_cong) (auto simp: nth_append)

lemma TRAIN_epochs_saved_train:
  "saved_epochs ''best_train_model'' (trace (TRAIN_epochs losses))
     = filter (\<lambda>i. flt (fst (losses ! i)) PosInf
                   \<and> (\<forall>j<i. fst (losses ! j) \<noteq> NaN \<longrightarrow> flt (fst (losses ! i)) (fst (losses ! j))))
         [0 ..< length losses]"
proof (induction losses rule: rev_induct)
  case Nil
  show ?case by (simp add: TRAIN_epochs_def)
next
  case (snoc l losses)
  obtain t v where l: "l = (t, v)" by (cases l)
  let ?new = "flt t PosInf \<and> (\<forall>j<length losses. fst (losses ! j) \<noteq> NaN \<longrightarrow> flt t (fst (losses ! j)))"
  have b: "fgt (best_train_loss (TRAIN_epochs losses)) t \<longleftrightarrow> ?new"
    by (rule TRAIN_epochs_best_train)
  have "saved_epochs ''best_train_model'' (trace (TRAIN_epochs (losses @ [l])))
          = saved_epochs ''best_train_model'' (trace (TRAIN_epochs losses))
            @ (if fgt (best_train_loss (TRAIN_epochs losses)) t then [length losses] else [])"
    by (simp add: TRAIN_epochs_snoc l Let_def saved_epochs_append)
  then have step: "saved_epochs ''best_train_model'' (trace (TRAIN_epochs (losses @ [l])))
          = saved_epochs ''best_train_model'' (trace (TRAIN_epochs losses))
            @ (if ?new then [length losses] else [])"
    by (simp only: b)
  have last: "(flt (fst ((losses @ [l]) ! length losses)) PosInf
               \<and> (\<forall>j<length losses. fst ((losses @ [l]) ! j) \<noteq> NaN
                     \<longrightarrow> flt (fst ((losses @ [l]) ! length losses)) (fst ((losses @ [l]) ! j))))
          \<longleftrightarrow> ?new"
    by (simp add: nth_append l)
  let ?P' = "\<lambda>i. flt (fst ((losses @ [l]) ! i)) PosInf
                 \<and> (\<forall>j<i. fst ((losses @ [l]) ! j) \<noteq> NaN
                       \<longrightarrow> flt (fst ((losses @ [l]) ! i)) (fst ((losses @ [l]) ! j)))"
  have "filter ?P' [0 ..< length (losses @ [l])]
          = filter ?P' [0 ..< length losses] @ filter ?P' [length losses]"
    by (simp del: filter.simps)
  also have "filter ?P' [length losses] = (if ?new then [length losses] else [])"
    using last by (simp only: filter.simps)
  also have "filter ?P' [0 ..< length losses]
          = filter (\<lambda>i. flt (fst (losses ! i)) PosInf
                   \<and> (\<forall>j<i. fst (losses ! j) \<noteq> NaN \<longrightarrow> flt (fst (losses ! i)) (fst (losses ! j))))
              [0 ..< length losses]"
    by (rule filter_upt_snoc_cong)
  finally show ?case
    unfolding step snoc.IH by (rule sym)
qed

lemma TRAIN_epochs_saved_valid:
  "saved_epochs ''best_valid_model'' (trace (TRAIN_epochs losses))
     = filter (\<lambda>i. flt (snd (losses ! i)) PosInf
                   \<and> (\<forall>j<i. snd (losses ! j) \<noteq> NaN \<longrightarrow> flt (snd (losses ! i)) (snd (losses ! j))))
         [0 ..< length losses]"
proof (induction losses rule: rev_induct)
  case Nil
  show ?case by (simp add: TRAIN_epochs_def)
next
  case (snoc l losses)
  obtain t v where l: "l = (t, v)" by (cases l)
  let ?new = "flt v PosInf \<and> (\<forall>j<length losses. snd (losses ! j) \<noteq> NaN \<longrightarrow> flt v (snd (losses ! j)))"
  have b: "fgt (best_valid_loss (TRAIN_epochs losses)) v \<longleftrightarrow> ?new"
    by (rule TRAIN_epochs_best_valid)
  have "saved_epochs ''best_valid_model'' (trace (TRAIN_epochs (losses @ [l])))
          = saved_epochs ''best_valid_model'' (trace (TRAIN_epochs losses))
            @ (if fgt (best_valid_loss (TRAIN_epochs losses)) v then [length losses] else [])"
    by (simp add: TRAIN_epochs_snoc l Let_def saved_epochs_append)
  then have step: "saved_epochs ''best_valid_model'' (trace (TRAIN_epochs (losses @ [l])))
          = saved_epochs ''best_valid_model'' (trace (TRAIN_epochs losses))
            @ (if ?new then [length losses] else [])"
    by (simp only: b)
  have last: "(flt (snd ((losses @ [l]) ! length losses)) PosInf
               \<and> (\<forall>j<length losses. snd ((losses @ [l]) ! j) \<noteq> NaN
                     \<longrightarrow> flt (snd ((losses @ [l]) ! length losses)) (snd ((losses @ [l]) ! j))))
          \<longleftrightarrow> ?new"
    by (simp add: nth_append l)
  let ?P' = "\<lambda>i. flt (snd ((losses @ [l]) ! i)) PosInf
                 \<and> (\<forall>j<i. snd ((losses @ [l]) ! j) \<noteq> NaN
                       \<longrightarrow> flt (snd ((losses @ [l]) ! i)) (snd ((losses @ [l]) ! j)))"
  have "filter ?P' [0 ..< length (losses @ [l])]
          = filter ?P' [0 ..< length losses] @ filter ?P' [length losses]"
    by (simp del: filter.simps)
  also have "filter ?P' [length losses] = (if ?new then [length losses] else [])"
    using last by (simp only: filter.simps)
  also have "filter ?P' [0 ..< length losses]
          = filter (\<lambda>i. flt (snd (losses ! i)) PosInf
                   \<and> (\<forall>j<i. snd (losses ! j) \<noteq> NaN \<longrightarrow> flt (snd (losses ! i)) (snd (losses ! j))))
              [0 ..< length losses]"
    by (rule filter_upt_snoc_cong)
  finally show ?case
    unfolding step snoc.IH by (rule sym)
qed

lemma strict_minima_filter:
  assumes "\<forall>l\<in>set losses. f l \<noteq> NaN \<and> f l \<noteq> PosInf"
  shows "filter (\<lambda>i. flt (f (losses ! i)) PosInf
                   \<and> (\<forall>j<i. f (losses ! j) \<noteq> NaN \<longrightarrow> flt (f (losses ! i)) (f (losses ! j))))
           [0 ..< length losses]
         = filter (\<lambda>i. \<forall>j<i. flt (f (losses ! i)) (f (losses ! j))) [0 ..< length losses]"
proof (rule filter_cong [OF refl])
  fix i assume "i \<in> set [0 ..< length losses]"
  then have i: "i < length losses" by simp
  then have fi: "flt (f (losses ! i)) PosInf"
    using assms by (simp add: flt_PosInf_iff)
  have "f (losses ! j) \<noteq> NaN" if "j < i" for j
    using that i assms by simp
  with fi show "(flt (f (losses ! i)) PosInf
                   \<and> (\<forall>j<i. f (losses ! j) \<noteq> NaN \<longrightarrow> flt (f (losses ! i)) (f (losses ! j))))
      = (\<forall>j<i. flt (f (losses ! i)) (f (losses ! j)))"
    by auto
qed

text \<open>
  Claim C7 as stated covers every sequence of losses. When the first train loss is NaN
  and the next two are 2.0 and 1.0, \<^verbatim>\<open>best_train_model\<close> is saved at epochs 1 and 2
  and not at epoch 0, although 2.0 is not lower than NaN and epoch 0 has no earlier
  epoch; when the only train loss is infinity, nothing is saved.
\<close>

theorem TRAIN_nan_inf_counterexample:
  "saved_epochs ''best_train_model''
      (trace (TRAIN [(NaN, Fin 1), (Fin 2, Fin 1), (Fin 1, Fin 1)])) = [1, 2]
   \<and> \<not> flt (Fin 2) NaN
   \<and> saved_epochs ''best_train_model'' (trace (TRAIN [(PosInf, Fin 1)])) = []"
  by (simp add: TRAIN_def TRAIN_epochs_def enumerate_eq_zip upt_conv_Cons fgt_def)

text \<open>
  Claim C7, amended: with both best losses starting at infinity, the epochs at which
  \<^verbatim>\<open>best_train_model\<close> is saved are, in order and once each, exactly the epochs whose
  train loss is strictly below infinity and strictly below every earlier train loss
  that is not NaN; a tie saves nothing. When no train loss is NaN or infinity, these are
  exactly the epochs whose train loss is strictly below the train loss of every earlier
  epoch. The same holds for \<^verbatim>\<open>best_valid_model\<close> and the validation losses.
\<close>

theorem TRAIN_saves_at_running_minima:
  "saved_epochs ''best_train_model'' (trace (TRAIN losses))
     = filter (\<lambda>i. flt (fst (losses ! i)) PosInf
                   \<and> (\<forall>j<i. fst (losses ! j) \<noteq> NaN \<longrightarrow> flt (fst (losses ! i)) (fst (losses ! j))))
         [0 ..< length losses]
   \<and> saved_epochs ''best_valid_model'' (trace (TRAIN losses))
     = filter (\<lambda>i. flt (snd (losses ! i)) PosInf
                   \<and> (\<forall>j<i. snd (losses ! j) \<noteq> NaN \<longrightarrow> flt (snd (losses ! i)) (snd (losses ! j))))
         [0 ..< length losses]
   \<and> ((\<forall>l\<in>set losses. fst l \<noteq> NaN \<and> fst l \<noteq> PosInf)
        \<longrightarrow> saved_epochs ''best_train_model'' (trace (TRAIN losses))
            = filter (\<lambda>i. \<forall>j<i. flt (fst (losses ! i)) (fst (losses ! j))) [0 ..< length losses])
   \<and> ((\<forall>l\<in>set losses. snd l \<noteq> NaN \<and> snd l \<noteq> PosInf)
        \<longrightarrow> saved_epochs ''best_valid_model'' (trace (TRAIN losses))
            = filter (\<lambda>i. \<forall>j<i. flt (snd (losses ! i)) (snd (losses ! j))) [0 ..< length losses])"
proof -
  have t: "saved_epochs ''best_train_model'' (trace (TRAIN losses))
             = saved_epochs ''best_train_model'' (trace (TRAIN_epochs losses))"
    and v: "saved_epochs ''best_valid_model'' (trace (TRAIN losses))
             = saved_epochs ''best_valid_model'' (trace (TRAIN_epochs losses))"
    by (simp_all add: TRAIN_def Let_def saved_epochs_append)
  show ?thesis
    unfolding t v TRAIN_epochs_saved_train TRAIN_epochs_saved_valid
    using strict_minima_filter [of losses fst] strict_minima_filter [of losses snd]
    by simp
qed

theorem TRAIN_saves_at_running_minima_witness:
  "saved_epochs ''best_train_model''
      (trace (TRAIN [(NaN, Fin 5), (Fin 3, PosInf), (Fin 3, Fin 4), (NegInf, NaN)])) = [1, 3]
   \<and> saved_epochs ''best_valid_model''
      (trace (TRAIN [(NaN, Fin 5), (Fin 3, PosInf), (Fin 3, Fin 4), (NegInf, NaN)])) = [0, 2]
   \<and> saved_epochs ''best_train_model''
      (trace (TRAIN [(Fin 3, Fin 5), (Fin 2, Fin 5), (Fin 2, Fin 4), (Fin 1, Fin 6)])) = [0, 1, 3]
   \<and> saved_epochs ''best_valid_model''
      (trace (TRAIN [(Fin 3, Fin 5), (Fin 2, Fin 5), (Fin 2, Fin 4), (Fin 1, Fin 6)])) = [0, 2]"
  using TRAIN_saves_at_running_minima [of "[(NaN, Fin 5), (Fin 3, PosInf), (Fin 3, Fin 4), (NegInf, NaN)]"]
    TRAIN_saves_at_running_minima [of "[(Fin 3, Fin 5), (Fin 2, Fin 5), (Fin 2, Fin 4), (Fin 1, Fin 6)]"]
  by (simp add: upt_conv_Cons less_Suc_eq all_conj_distrib)

section \<open>The validation pass\<close>

lemma batch_loop_valid_keeps:
  "grad_enabled (fst (batch_loop ''valid'' ibs tot s)) = grad_enabled s
   \<and> optim_steps (fst (batch_loop ''valid'' ibs tot s)) = optim_steps s
   \<and> backwards (fst (batch_loop ''valid'' ibs tot s)) = backwards s"
proof (induction ibs arbitrary: tot s)
  case Nil
  show ?case by simp
next
  case (Cons ib ibs)
  obtain i b where ib: "ib = (i, b)" by (cases ib)
  show ?case
  proof (cases b)
    case (Inl err)
    then show ?thesis by (simp add: ib)
  next
    case (Inr l)
    then show ?thesis by (simp add: ib Let_def Cons.IH)
  qed
qed

lemma batch_loop_all_ok:
  assumes "\<forall>ib\<in>set ibs. \<exists>l. snd ib = Inr l"
  shows "\<exists>tot'. snd (batch_loop op ibs tot s) = Inr tot'"
  using assms
proof (induction ibs arbitrary: tot s)
  case Nil
  show ?case by simp
next
  case (Cons ib ibs)
  obtain i b where ib: "ib = (i, b)" by (cases ib)
  from Cons.prems obtain l where b: "b = Inr l" by (auto simp: ib)
  from Cons.prems have "\<forall>ib\<in>set ibs. \<exists>l. snd ib = Inr l" by simp
  then show ?case by (simp add: ib b Let_def Cons.IH)
qed

lemma batch_loop_some_error:
  assumes "\<exists>ib\<in>set ibs. \<exists>err. snd ib = Inl err"
  shows "\<exists>err. snd (batch_loop op ibs tot s) = Inl err"
  using assms
proof (induction ibs arbitrary: tot s)
  case Nil
  then show ?case by simp
next
  case (Cons ib ibs)
  obtain i b where ib: "ib = (i, b)" by (cases ib)
  show ?case
  proof (cases b)
    case (Inl err)
    then show ?thesis by (simp add: ib)
  next
    case (Inr l)
    with Cons.prems have "\<exists>ib\<in>set ibs. \<exists>err. snd ib = Inl err" by (auto simp: ib)
    then show ?thesis by (simp add: ib Inr Let_def Cons.IH)
  qed
qed

lemma snd_enumerate_set: "snd ` set (enumerate n xs) = set xs"
  by (induction xs arbitrary: n) auto

text \<open>
  Claim C8 as stated has gradient tracking enabled again on every exit path. When the
  second of three validation batches raises, the pass ends with the error and gradient
  tracking is still disabled.
\<close>

theorem loss_pass_valid_error_counterexample:
  "loss_pass torch0 [Inr (Fin 1), Inl RuntimeError, Inr (Fin 2)] ''valid''
     = (\<lparr>grad_enabled = False, zero_grads = 2, backwards = 0, optim_steps = 0, visualized = [0]\<rparr>,
        Inl RuntimeError)"
  by (simp add: loss_pass_def torch0_def enumerate_eq_zip upt_conv_Cons)

text \<open>
  Claim C8, amended: a validation pass takes no optimizer step; gradient tracking is
  disabled at entry and stays disabled after every number \<open>k\<close> of batches; when no
  batch raises, the pass returns its loss with gradient tracking enabled again; when a
  batch raises, the error leaves the pass and gradient tracking stays disabled.
\<close>

theorem loss_pass_valid_grad:
  "optim_steps (fst (loss_pass s loader ''valid'')) = optim_steps s
   \<and> (\<forall>k\<le>length loader.
        \<not> grad_enabled (fst (batch_loop ''valid'' (enumerate 0 (take k loader)) (Fin 0) (s\<lparr>grad_enabled := False\<rparr>))))
   \<and> ((\<forall>b\<in>set loader. \<exists>l. b = Inr l)
        \<longrightarrow> (\<exists>tot. snd (loss_pass s loader ''valid'') = Inr tot)
            \<and> grad_enabled (fst (loss_pass s loader ''valid'')))
   \<and> ((\<exists>b\<in>set loader. \<exists>err. b = Inl err)
        \<longrightarrow> (\<exists>err. snd (loss_pass s loader ''valid'') = Inl err)
            \<and> \<not> grad_enabled (fst (loss_pass s loader ''valid'')))"
proof (intro conjI impI allI)
  let ?s0 = "s\<lparr>grad_enabled := False\<rparr>"
  have keep: "grad_enabled (fst (batch_loop ''valid'' ibs (Fin 0) ?s0)) = False
              \<and> optim_steps (fst (batch_loop ''valid'' ibs (Fin 0) ?s0)) = optim_steps s" for ibs
    using batch_loop_valid_keeps [of ibs "Fin 0" ?s0] by simp
  obtain s' res where r: "batch_loop ''valid'' (enumerate 0 loader) (Fin 0) ?s0 = (s', res)"
    by (cases "batch_loop ''valid'' (enumerate 0 loader) (Fin 0) ?s0")
  have s': "\<not> grad_enabled s'" "optim_steps s' = optim_steps s"
    using keep [of "enumerate 0 loader"] by (simp_all add: r)
  have lp: "loss_pass s loader ''valid''
      = (case res of Inl err \<Rightarrow> (s', Inl err)
                   | Inr tot \<Rightarrow> (s'\<lparr>grad_enabled := True\<rparr>, Inr tot))"
    by (simp add: loss_pass_def r)
  show "optim_steps (fst (loss_pass s loader ''valid'')) = optim_steps s"
    using s' by (cases res) (simp_all add: lp)
  show "\<not> grad_enabled (fst (batch_loop ''valid'' (enumerate 0 (take k loader)) (Fin 0) ?s0))" for k
    using keep by simp
  {
    assume ok: "\<forall>b\<in>set loader. \<exists>l. b = Inr l"
    have "\<forall>ib\<in>set (enumerate 0 loader). \<exists>l. snd ib = Inr l"
      using ok snd_enumerate_set [of 0 loader] by auto
    then have "\<exists>tot. snd (batch_loop ''valid'' (enumerate 0 loader) (Fin 0) ?s0) = Inr tot"
      by (rule batch_loop_all_ok)
    then obtain tot where t: "res = Inr tot"
      by (auto simp: r)
    show "\<exists>tot. snd (loss_pass s loader ''valid'') = Inr tot"
      by (simp add: lp t)
    show "grad_enabled (fst (loss_pass s loader ''valid''))"
      by (simp add: lp t)
  }
  {
    assume bad: "\<exists>b\<in>set loader. \<exists>err. b = Inl err"
    have "\<exists>ib\<in>set (enumerate 0 loader). \<exists>err. snd ib = Inl err"
      using bad snd_enumerate_set [of 0 loader] by (metis imageE)
    then have "\<exists>err. snd (batch_loop ''valid'' (enumerate 0 loader) (Fin 0) ?s0) = Inl err"
      by (rule batch_loop_some_error)
    then obtain err where e: "res = Inl err"
      by (auto simp: r)
    show "\<exists>err. snd (loss_pass s loader ''valid'') = Inl err"
      by (simp add: lp e)
    show "\<not> grad_enabled (fst (loss_pass s loader ''valid''))"
      using s' by (simp add: lp e)
  }
qed

theorem loss_pass_valid_grad_witness:
  "loss_pass torch0 [Inr (Fin 1), Inr (Fin 2)] ''valid''
     = (\<lparr>grad_enabled = True, zero_grads = 2, backwards = 0, optim_steps = 0, visualized = [0]\<rparr>, Inr (Fin 3))
   \<and> grad_enabled (fst (loss_pass torch0 [Inr (Fin 1), Inr (Fin 2)] ''valid''))
   \<and> \<not> grad_enabled (fst (loss_pass torch0 [Inr (Fin 1), Inl RuntimeError, Inr (Fin 2)] ''valid''))"
  using loss_pass_valid_grad [of torch0 "[Inr (Fin 1), Inr (Fin 2)]"]
    loss_pass_valid_grad [of torch0 "[Inr (Fin 1), Inl RuntimeError, Inr (Fin 2)]"]
  by (simp add: loss_pass_def torch0_def enumerate_eq_zip upt_conv_Cons)

end
